theory Spec2Isabelle
  imports Main "HOL-Library.Sublist"
begin

section \<open>Values decoded from JSON\<close>

text \<open>
  What \<^verbatim>\<open>json.loads\<close> returns: \<^verbatim>\<open>None\<close>, a bool, an int, a float (mantissa and binary
  exponent; no operation of the program inspects a number), a str, a list, or a dict with
  str keys, given by its items. Python is dynamically typed, so every field that is filled
  from the payload holds such a value, whatever its annotation says.
\<close>

datatype json =
    JNull
  | JBool bool
  | JInt int
  | JFloat int int
  | JStr string
  | JArr "json list"
  | JObj "(string \<times> json) list"

text \<open>
  The exceptions the program meets. \<open>OtherException\<close> is any further class derived from
  \<^verbatim>\<open>Exception\<close>, by name; \<open>NonException\<close> is a class derived from \<^verbatim>\<open>BaseException\<close> but
  not from \<^verbatim>\<open>Exception\<close> (\<^verbatim>\<open>SystemExit\<close>, \<^verbatim>\<open>KeyboardInterrupt\<close>, \<^verbatim>\<open>GeneratorExit\<close>,
  \<^verbatim>\<open>asyncio.CancelledError\<close>), by name.
\<close>

datatype pyexc =
    AttributeError
  | TypeError
  | KeyError
  | JSONDecodeError
  | OtherException string
  | NonException string

text \<open>\<^verbatim>\<open>isinstance(e, Exception)\<close>, the test an \<^verbatim>\<open>except Exception\<close> clause makes.\<close>

fun is_Exception :: "pyexc \<Rightarrow> bool" where
  "is_Exception (NonException _) = False"
| "is_Exception _ = True"

text \<open>
  \<^verbatim>\<open>x.get(key, default)\<close>: only a dict has the method; on any other value the attribute
  lookup raises \<^verbatim>\<open>AttributeError\<close>.
\<close>

fun dict_get :: "json \<Rightarrow> string \<Rightarrow> json \<Rightarrow> pyexc + json" where
  "dict_get (JObj items) key dflt =
     Inr (case map_of items key of None \<Rightarrow> dflt | Some v \<Rightarrow> v)"
| "dict_get _ key dflt = Inl AttributeError"

text \<open>Whether \<^verbatim>\<open>hash(x)\<close> succeeds: lists and dicts are unhashable.\<close>

fun hashable :: "json \<Rightarrow> bool" where
  "hashable (JArr _) = False"
| "hashable (JObj _) = False"
| "hashable _ = True"

fun is_mapping :: "json \<Rightarrow> bool" where
  "is_mapping (JObj _) = True"
| "is_mapping _ = False"

fun is_string :: "json \<Rightarrow> bool" where
  "is_string (JStr _) = True"
| "is_string _ = False"

section \<open>The event model\<close>

text \<open>A \<^verbatim>\<open>datetime\<close>, as a count of microseconds.\<close>

type_synonym datetime = int

record WebhookEvent =
  event :: json
  author :: json
  data :: json
  timestamp :: datetime

text \<open>
  \<^verbatim>\<open>WebhookEvent.from_payload\<close>. The keyword arguments are evaluated in the order written;
  \<open>now\<close> is what \<^verbatim>\<open>datetime.now()\<close> returns when it is reached.
\<close>

definition from_payload :: "datetime \<Rightarrow> json \<Rightarrow> pyexc + WebhookEvent" where
  "from_payload now payload =
     (case dict_get payload ''event'' (JStr '''') of
        Inl e \<Rightarrow> Inl e
      | Inr ev \<Rightarrow>
     (case dict_get payload ''data'' (JObj []) of
        Inl e \<Rightarrow> Inl e
      | Inr d \<Rightarrow>
     (case dict_get d ''author'' (JObj []) of
        Inl e \<Rightarrow> Inl e
      | Inr a \<Rightarrow>
     (case dict_get payload ''data'' (JObj []) of
        Inl e \<Rightarrow> Inl e
      | Inr d' \<Rightarrow>
          Inr \<lparr>event = ev, author = a, data = d', timestamp = now\<rparr>))))"

section \<open>Handlers and the registry\<close>

text \<open>
  A registered callable, as far as \<^verbatim>\<open>process_event\<close> looks at it: its \<^verbatim>\<open>__name__\<close>
  attribute when it has one (a \<^verbatim>\<open>def\<close> function has, a \<^verbatim>\<open>functools.partial\<close> object or
  an instance with \<^verbatim>\<open>__call__\<close> has not), what \<^verbatim>\<open>asyncio.iscoroutinefunction\<close> says of it,
  and what invoking it on an event does: it acts on the world outside the processor
  (type \<open>'w\<close>) and returns (\<open>None\<close>) or raises. Handlers are taken to come back, and not
  to reach into the processor that is dispatching to them.
\<close>

record 'w handler =
  handler_name :: "string option"
  iscoroutinefunction :: bool
  behaviour :: "WebhookEvent \<Rightarrow> 'w \<Rightarrow> pyexc option \<times> 'w"

text \<open>The records the program hands to \<^verbatim>\<open>logger\<close>, by call site and formatted values.\<close>

datatype log_record =
    RegisteredHandler string
  | RegisteredGlobalHandler
  | ProcessingEvent json json
  | HandlerError string pyexc
  | GlobalHandlerError string pyexc
  | WebhookReceived json
  | InvalidJSONPayload
  | WebhookProcessingError pyexc

text \<open>
  The state of a \<^verbatim>\<open>WebhookProcessor\<close>, for registered callables of a type \<open>'h\<close>: the
  registry stores them and does not look into them.
\<close>

record 'h WebhookProcessor =
  handlers :: "string \<rightharpoonup> 'h list"
  global_handlers :: "'h list"

definition WebhookProcessor_init :: "'h WebhookProcessor" where
  "WebhookProcessor_init = \<lparr>handlers = Map.empty, global_handlers = []\<rparr>"

text \<open>\<^verbatim>\<open>self._handlers.get(kind, [])\<close> at a str key.\<close>

definition handlersFor :: "'h WebhookProcessor \<Rightarrow> string \<Rightarrow> 'h list" where
  "handlersFor self kind = (case handlers self kind of None \<Rightarrow> [] | Some hs \<Rightarrow> hs)"

text \<open>
  \<^verbatim>\<open>register_handler\<close>, with the subscription \<^verbatim>\<open>self._handlers[event_type]\<close> raising
  \<^verbatim>\<open>KeyError\<close> at a missing key, as a dict does.
\<close>

definition register_handler ::
  "'h WebhookProcessor \<Rightarrow> string \<Rightarrow> 'h \<Rightarrow>
   pyexc + 'h WebhookProcessor \<times> log_record list" where
  "register_handler self event_type h =
     (let created = (if event_type \<notin> dom (handlers self)
                     then self\<lparr>handlers := (handlers self)(event_type \<mapsto> [])\<rparr>
                     else self)
      in case handlers created event_type of
           None \<Rightarrow> Inl KeyError
         | Some hs \<Rightarrow>
             Inr (created\<lparr>handlers := (handlers created)(event_type \<mapsto> hs @ [h])\<rparr>,
                  [RegisteredHandler event_type]))"


section \<open>Dispatch\<close>

text \<open>
  \<^verbatim>\<open>self._handlers.get(event.event, [])\<close>. The key is whatever the payload held: hashing a
  list or a dict raises \<^verbatim>\<open>TypeError\<close>; a hashable value that is not a str equals no key of
  the registry, whose keys are strs.
\<close>

fun handlers_get :: "'h WebhookProcessor \<Rightarrow> json \<Rightarrow> pyexc + 'h list" where
  "handlers_get self (JStr kind) = Inr (handlersFor self kind)"
| "handlers_get self (JArr _) = Inl TypeError"
| "handlers_get self (JObj _) = Inl TypeError"
| "handlers_get self _ = Inr []"

text \<open>
  One turn of either loop of \<^verbatim>\<open>process_event\<close>: the \<^verbatim>\<open>try\<close> around the invocation and
  its \<^verbatim>\<open>except Exception\<close> clause, whose log call reads \<^verbatim>\<open>handler.__name__\<close>. The two
  loops differ in the log record only, given as \<open>mk\<close>. A turn either goes on to the next
  handler or leaves \<^verbatim>\<open>process_event\<close> with an exception.
\<close>

datatype 'w turn = Continue "log_record list" 'w | Escape pyexc 'w

definition invoke ::
  "(string \<Rightarrow> pyexc \<Rightarrow> log_record) \<Rightarrow> 'w handler \<Rightarrow> WebhookEvent \<Rightarrow> 'w \<Rightarrow> 'w turn" where
  "invoke mk h ev w =
     (case (if iscoroutinefunction h then behaviour h ev w else behaviour h ev w) of
        (None, w') \<Rightarrow> Continue [] w'
      | (Some e, w') \<Rightarrow>
          if is_Exception e
          then (case handler_name h of
                  None \<Rightarrow> Escape AttributeError w'
                | Some n \<Rightarrow> Continue [mk n e] w')
          else Escape e w')"

text \<open>
  What a run of \<^verbatim>\<open>process_event\<close> leaves: the exception it raised, if any; the invocations
  it made, in order, each with the event passed and the world it started in; the log
  records; the world afterwards.
\<close>

record 'w dispatch =
  raised :: "pyexc option"
  calls :: "('w handler \<times> WebhookEvent \<times> 'w) list"
  logged :: "log_record list"
  world :: 'w

fun run_handlers ::
  "(string \<Rightarrow> pyexc \<Rightarrow> log_record) \<Rightarrow> 'w handler list \<Rightarrow> WebhookEvent \<Rightarrow> 'w \<Rightarrow> 'w dispatch" where
  "run_handlers mk [] ev w = \<lparr>raised = None, calls = [], logged = [], world = w\<rparr>"
| "run_handlers mk (h # hs) ev w =
     (case invoke mk h ev w of
        Escape e w' \<Rightarrow> \<lparr>raised = Some e, calls = [(h, ev, w)], logged = [], world = w'\<rparr>
      | Continue l w' \<Rightarrow>
          (let r = run_handlers mk hs ev w'
           in r\<lparr>calls := (h, ev, w) # calls r, logged := l @ logged r\<rparr>))"

text \<open>
  \<^verbatim>\<open>process_event\<close>: the first log call reads \<^verbatim>\<open>event.author.get\<close>, then the keyed
  handlers are looked up and run, then the global ones; an exception that leaves a loop
  leaves the method. The processor is returned beside the outcome.
\<close>

definition process_event ::
  "'w handler WebhookProcessor \<Rightarrow> WebhookEvent \<Rightarrow> 'w \<Rightarrow>
   'w dispatch \<times> 'w handler WebhookProcessor" where
  "process_event self ev w =
     (case dict_get (author ev) ''name'' (JStr ''Unknown'') of
        Inl e \<Rightarrow> (\<lparr>raised = Some e, calls = [], logged = [], world = w\<rparr>, self)
      | Inr nm \<Rightarrow>
     (case handlers_get self (event ev) of
        Inl e \<Rightarrow>
          (\<lparr>raised = Some e, calls = [], logged = [ProcessingEvent (event ev) nm], world = w\<rparr>,
           self)
      | Inr hs \<Rightarrow>
     (let keyed = run_handlers HandlerError hs ev w
      in if raised keyed \<noteq> None
         then (keyed\<lparr>logged := ProcessingEvent (event ev) nm # logged keyed\<rparr>, self)
         else
     (let global = run_handlers GlobalHandlerError (global_handlers self) ev (world keyed)
      in (global\<lparr>calls := calls keyed @ calls global,
                 logged := ProcessingEvent (event ev) nm # logged keyed @ logged global\<rparr>,
          self)))))"

section \<open>The HTTP boundary\<close>

text \<open>
  What \<^verbatim>\<open>await request.json()\<close> does with a request body, which is the framework's part:
  it raises an exception, \<^verbatim>\<open>json.JSONDecodeError\<close> when the body is not JSON, or returns
  the decoded value.
\<close>

datatype request_json = RequestRaises pyexc | Decoded json

text \<open>
  How \<^verbatim>\<open>webhook_handler\<close> ends: it returns a response, raises \<^verbatim>\<open>HTTPException\<close>, or lets an
  exception through that \<^verbatim>\<open>except Exception\<close> does not catch.
\<close>

datatype http_reply =
    JSONResponse nat "(string \<times> string) list"
  | HTTPException nat string
  | Uncaught pyexc

text \<open>
  The two \<^verbatim>\<open>except\<close> clauses of \<^verbatim>\<open>webhook_handler\<close>, for an exception raised in its
  \<^verbatim>\<open>try\<close> block after the log records \<open>l\<close>.
\<close>

definition except_clauses ::
  "pyexc \<Rightarrow> log_record list \<Rightarrow> http_reply \<times> WebhookEvent list \<times> log_record list" where
  "except_clauses e l =
     (if e = JSONDecodeError
      then (HTTPException 400 ''Invalid JSON'', [], l @ [InvalidJSONPayload])
      else if is_Exception e
      then (HTTPException 500 ''Internal server error'', [], l @ [WebhookProcessingError e])
      else (Uncaught e, [], l))"

text \<open>
  \<^verbatim>\<open>webhook_handler\<close>: the reply, the events handed to \<^verbatim>\<open>background_tasks.add_task\<close> for
  \<^verbatim>\<open>process_event\<close>, and the log records.
\<close>

definition webhook_handler ::
  "datetime \<Rightarrow> request_json \<Rightarrow> http_reply \<times> WebhookEvent list \<times> log_record list" where
  "webhook_handler now request =
     (case request of
        RequestRaises e \<Rightarrow> except_clauses e []
      | Decoded payload \<Rightarrow>
     (case dict_get payload ''event'' (JStr ''unknown'') of
        Inl e \<Rightarrow> except_clauses e []
      | Inr kind \<Rightarrow>
     (case from_payload now payload of
        Inl e \<Rightarrow> except_clauses e [WebhookReceived kind]
      | Inr ev \<Rightarrow>
          (JSONResponse 200 [(''message'', ''Webhook processed successfully'')], [ev],
           [WebhookReceived kind]))))"

section \<open>What the properties are stated with\<close>

text \<open>
  The handlers an event is due to reach: those registered for its kind, then the global
  ones. A kind that is not a str has no registrations.
\<close>

definition dispatch_sequence :: "'h WebhookProcessor \<Rightarrow> WebhookEvent \<Rightarrow> 'h list" where
  "dispatch_sequence self ev =
     (case event ev of JStr kind \<Rightarrow> handlersFor self kind | _ \<Rightarrow> []) @ global_handlers self"

text \<open>
  Handlers invoked strictly one after the other on the same event: each starts in the
  world the one before it left, whether that one returned or raised.
\<close>

fun in_turn ::
  "'w handler list \<Rightarrow> WebhookEvent \<Rightarrow> 'w \<Rightarrow> ('w handler \<times> WebhookEvent \<times> 'w) list" where
  "in_turn [] ev w = []"
| "in_turn (h # hs) ev w = (h, ev, w) # in_turn hs ev (snd (behaviour h ev w))"

definition after_all :: "'w handler list \<Rightarrow> WebhookEvent \<Rightarrow> 'w \<Rightarrow> 'w" where
  "after_all hs ev w = fold (\<lambda>h w'. snd (behaviour h ev w')) hs w"

text \<open>
  An invocation that dispatch survives: the handler returns, or it raises an exception
  derived from \<^verbatim>\<open>Exception\<close> and has a \<^verbatim>\<open>__name__\<close> for the log call to read.
\<close>

definition absorbed :: "'w handler \<times> WebhookEvent \<times> 'w \<Rightarrow> bool" where
  "absorbed c =
     (case c of (h, ev, w) \<Rightarrow>
        (case fst (behaviour h ev w) of
           None \<Rightarrow> True
         | Some e \<Rightarrow> is_Exception e \<and> handler_name h \<noteq> None))"

text \<open>
  An event \<^verbatim>\<open>process_event\<close> gets past its first two lines with: the author is a dict and
  the kind can be hashed.
\<close>

definition deliverable :: "WebhookEvent \<Rightarrow> bool" where
  "deliverable ev \<longleftrightarrow> is_mapping (author ev) \<and> hashable (event ev)"

text \<open>
  A payload \<^verbatim>\<open>from_payload\<close> can read: a dict whose \<^verbatim>\<open>data\<close> entry, when there is one, is
  a dict.
\<close>

definition normalizable :: "json \<Rightarrow> bool" where
  "normalizable payload =
     (case payload of
        JObj items \<Rightarrow> (case map_of items ''data'' of None \<Rightarrow> True | Some d \<Rightarrow> is_mapping d)
      | _ \<Rightarrow> False)"


definition failure_of :: "'w handler \<times> WebhookEvent \<times> 'w \<Rightarrow> (string \<times> pyexc) option" where
  "failure_of c =
     (case c of (h, ev, w) \<Rightarrow>
        (case (fst (behaviour h ev w), handler_name h) of
           (Some e, Some n) \<Rightarrow> if is_Exception e then Some (n, e) else None
         | _ \<Rightarrow> None))"

text \<open>
  Handlers to run the program on. The world is the journal of the handlers that ran: each
  writes its name when it runs, then returns or raises.
\<close>

definition returning :: "string \<Rightarrow> string list handler" where
  "returning n =
     \<lparr>handler_name = Some n, iscoroutinefunction = False,
      behaviour = (\<lambda>ev w. (None, w @ [n]))\<rparr>"

definition raising :: "string \<Rightarrow> pyexc \<Rightarrow> string list handler" where
  "raising n e =
     \<lparr>handler_name = Some n, iscoroutinefunction = True,
      behaviour = (\<lambda>ev w. (Some e, w @ [n]))\<rparr>"

text \<open>
  Events and processors to run the program on: the event of the payload
  \<^verbatim>\<open>{"event": "card_moved", "data": {"author": {"name": "Alice"}}}\<close>, that of
  \<^verbatim>\<open>{"event": "card_moved", "data": {"author": "bob"}}\<close>, and that of \<^verbatim>\<open>{}\<close>; a processor
  with two handlers for \<^verbatim>\<open>card_moved\<close>, the first of which raises the given exception,
  and a global handler that raises the other given exception.
\<close>

definition alice_moved :: WebhookEvent where
  "alice_moved =
     \<lparr>event = JStr ''card_moved'', author = JObj [(''name'', JStr ''Alice'')],
      data = JObj [(''author'', JObj [(''name'', JStr ''Alice'')])], timestamp = 0\<rparr>"

definition bob_moved :: WebhookEvent where
  "bob_moved =
     \<lparr>event = JStr ''card_moved'', author = JStr ''bob'',
      data = JObj [(''author'', JStr ''bob'')], timestamp = 0\<rparr>"

definition empty_event :: WebhookEvent where
  "empty_event = \<lparr>event = JStr '''', author = JObj [], data = JObj [], timestamp = 0\<rparr>"

definition processor_ABG :: "pyexc \<Rightarrow> pyexc \<Rightarrow> string list handler WebhookProcessor" where
  "processor_ABG ea eg =
     \<lparr>handlers = [''card_moved'' \<mapsto> [raising ''A'' ea, returning ''B'']],
      global_handlers = [raising ''G'' eg]\<rparr>"

section \<open>The loops of dispatch\<close>

lemma invoke_cases:
  "invoke mk h ev w =
     (if absorbed (h, ev, w)
      then Continue (case fst (behaviour h ev w) of
                       None \<Rightarrow> []
                     | Some e \<Rightarrow> [mk (the (handler_name h)) e])
                    (snd (behaviour h ev w))
      else Escape (case fst (behaviour h ev w) of
                     Some e \<Rightarrow> if is_Exception e then AttributeError else e
                   | None \<Rightarrow> AttributeError)
                  (snd (behaviour h ev w)))"
  by (cases "behaviour h ev w") (auto simp: invoke_def absorbed_def split: option.splits)

lemma in_turn_append:
  "in_turn (xs @ ys) ev w = in_turn xs ev w @ in_turn ys ev (after_all xs ev w)"
  by (induction xs arbitrary: w) (simp_all add: after_all_def)

lemma map_fst_in_turn: "map fst (in_turn hs ev w) = hs"
  by (induction hs arbitrary: w) simp_all



lemma run_prefix: "prefix (calls (run_handlers mk hs ev w)) (in_turn hs ev w)"
  by (induction hs arbitrary: w) (simp_all add: invoke_cases Let_def)




lemma run_mk:
  "raised (run_handlers mk hs ev w) = raised (run_handlers mk' hs ev w) \<and>
   calls (run_handlers mk hs ev w) = calls (run_handlers mk' hs ev w) \<and>
   world (run_handlers mk hs ev w) = world (run_handlers mk' hs ev w)"
  by (induction hs arbitrary: w) (simp_all add: invoke_cases Let_def)

lemma run_append:
  "run_handlers mk (xs @ ys) ev w =
     (let r = run_handlers mk xs ev w
      in if raised r \<noteq> None then r
         else let r' = run_handlers mk ys ev (world r)
              in r'\<lparr>calls := calls r @ calls r', logged := logged r @ logged r'\<rparr>)"
  by (induction xs arbitrary: w) (simp_all add: invoke_cases Let_def)


section \<open>Dispatch as one loop over the dispatch sequence\<close>

lemma process_event_undeliverable:
  "\<not> deliverable ev \<Longrightarrow>
     calls (fst (process_event self ev w)) = [] \<and>
     raised (fst (process_event self ev w)) =
       Some (if is_mapping (author ev) then TypeError else AttributeError) \<and>
     world (fst (process_event self ev w)) = w"
  by (cases "author ev"; cases "event ev") (simp_all add: deliverable_def process_event_def)

lemma process_event_deliverable:
  assumes "deliverable ev"
  shows "raised (fst (process_event self ev w)) =
           raised (run_handlers mk (dispatch_sequence self ev) ev w) \<and>
         calls (fst (process_event self ev w)) =
           calls (run_handlers mk (dispatch_sequence self ev) ev w) \<and>
         world (fst (process_event self ev w)) =
           world (run_handlers mk (dispatch_sequence self ev) ev w)"
proof -
  from assms obtain items where a: "author ev = JObj items"
    by (cases "author ev") (simp_all add: deliverable_def)
  from assms obtain hs where
    g: "handlers_get self (event ev) = Inr hs" and
    d: "dispatch_sequence self ev = hs @ global_handlers self"
    by (cases "event ev") (simp_all add: deliverable_def dispatch_sequence_def)
  note k = run_mk [of HandlerError hs ev w mk]
  note gl = run_mk [of GlobalHandlerError "global_handlers self" ev _ mk]
  show ?thesis
    by (simp add: process_event_def a g d run_append Let_def k gl)
qed

lemma process_event_prefix:
  "prefix (calls (fst (process_event self ev w))) (in_turn (dispatch_sequence self ev) ev w)"
proof (cases "deliverable ev")
  case True
  then show ?thesis
    using process_event_deliverable [of ev self w HandlerError] run_prefix by metis
next
  case False
  then show ?thesis by (simp add: process_event_undeliverable)
qed

section \<open>Normalization\<close>

lemma normalizable_items:
  "normalizable payload \<longleftrightarrow>
     (\<exists>items. payload = JObj items \<and>
        (map_of items ''data'' = None \<or> (\<exists>d. map_of items ''data'' = Some (JObj d))))"
proof (cases payload)
  case (JObj items)
  show ?thesis
  proof (cases "map_of items ''data''")
    case None
    with JObj show ?thesis by (simp add: normalizable_def)
  next
    case (Some v)
    with JObj show ?thesis by (cases v) (simp_all add: normalizable_def)
  qed
qed (simp_all add: normalizable_def)




text \<open>
  C5, as amended. For every payload mapping that \<^verbatim>\<open>from_payload\<close> returns an event for:
  the kind is the \<^verbatim>\<open>event\<close> entry when the key is present, of whatever type, else the
  empty string; the data is the \<^verbatim>\<open>data\<close> entry when present, else the empty mapping,
  and is a mapping; the author is the \<^verbatim>\<open>author\<close> entry of the data when present, of
  whatever type, else the empty mapping.
\<close>

theorem from_payload_fields:
  assumes "from_payload now (JObj items) = Inr ev"
  shows "event ev = (case map_of items ''event'' of None \<Rightarrow> JStr '''' | Some v \<Rightarrow> v) \<and>
         data ev = (case map_of items ''data'' of None \<Rightarrow> JObj [] | Some d \<Rightarrow> d) \<and>
         (\<exists>ditems. data ev = JObj ditems \<and>
            author ev = (case map_of ditems ''author'' of None \<Rightarrow> JObj [] | Some a \<Rightarrow> a))"
proof -
  let ?d = "case map_of items ''data'' of None \<Rightarrow> JObj [] | Some d \<Rightarrow> d"
  from assms obtain ditems where d: "?d = JObj ditems"
    by (cases ?d) (auto simp: from_payload_def)
  with assms show ?thesis
    by (auto simp: from_payload_def)
qed

theorem from_payload_fields_witness:
  "from_payload 3 (JObj [(''event'', JStr ''comment_added''),
                         (''data'', JObj [(''author'', JObj [(''name'', JStr ''Alice'')]),
                                          (''text'', JStr ''hi'')])]) =
     Inr \<lparr>event = JStr ''comment_added'',
          author = JObj [(''name'', JStr ''Alice'')],
          data = JObj [(''author'', JObj [(''name'', JStr ''Alice'')]), (''text'', JStr ''hi'')],
          timestamp = 3\<rparr> \<and>
   event \<lparr>event = JStr ''comment_added'',
          author = JObj [(''name'', JStr ''Alice'')],
          data = JObj [(''author'', JObj [(''name'', JStr ''Alice'')]), (''text'', JStr ''hi'')],
          timestamp = 3\<rparr> = JStr ''comment_added''"
  using from_payload_fields
    [of 3 "[(''event'', JStr ''comment_added''),
            (''data'', JObj [(''author'', JObj [(''name'', JStr ''Alice'')]),
                             (''text'', JStr ''hi'')])]"
        "\<lparr>event = JStr ''comment_added'',
          author = JObj [(''name'', JStr ''Alice'')],
          data = JObj [(''author'', JObj [(''name'', JStr ''Alice'')]), (''text'', JStr ''hi'')],
          timestamp = 3\<rparr>"]
  by (simp add: from_payload_def)

text \<open>
  C5 as stated fails: in the payload \<^verbatim>\<open>{"event": 5}\<close> the \<^verbatim>\<open>event\<close> entry is present and
  not a string, and the kind of the event returned is that entry, not the empty string.
\<close>

theorem from_payload_keeps_non_string_kind:
  "from_payload 0 (JObj [(''event'', JInt 5)]) =
     Inr \<lparr>event = JInt 5, author = JObj [], data = JObj [], timestamp = 0\<rparr> \<and>
   \<not> is_string (JInt 5) \<and> JInt 5 \<noteq> JStr ''''"
  by (simp add: from_payload_def)

text \<open>
  C9. The timestamp of the event \<^verbatim>\<open>from_payload\<close> returns is the clock reading taken
  while normalizing, whatever the payload holds.
\<close>

theorem from_payload_timestamp:
  assumes "from_payload now payload = Inr ev"
  shows "timestamp ev = now"
  using assms by (auto simp: from_payload_def split: sum.splits)

theorem from_payload_timestamp_witness:
  "from_payload 7 (JObj [(''timestamp'', JInt 99)]) =
     Inr \<lparr>event = JStr '''', author = JObj [], data = JObj [], timestamp = 7\<rparr> \<and>
   timestamp \<lparr>event = JStr '''', author = JObj [], data = JObj [], timestamp = 7\<rparr> = 7"
  using from_payload_timestamp
    [of 7 "JObj [(''timestamp'', JInt 99)]"
        "\<lparr>event = JStr '''', author = JObj [], data = JObj [], timestamp = 7\<rparr>"]
  by (simp add: from_payload_def)

section \<open>The registry\<close>

text \<open>
  C8. For every kind string, the empty one included, and every handler,
  \<^verbatim>\<open>register_handler\<close> raises nothing and leaves under that kind the sequence that was
  there, with the handler appended, whether or not the handler was in it; the lookup
  of that kind then returns this sequence; and the lookup of a kind without registrations
  returns the empty sequence.
\<close>

theorem register_handler_appends:
  "register_handler self kind h =
     Inr (self\<lparr>handlers := (handlers self)(kind \<mapsto> handlersFor self kind @ [h])\<rparr>,
          [RegisteredHandler kind]) \<and>
   handlersFor (self\<lparr>handlers := (handlers self)(kind \<mapsto> handlersFor self kind @ [h])\<rparr>) kind
     = handlersFor self kind @ [h] \<and>
   (kind \<notin> dom (handlers self) \<longrightarrow> handlersFor self kind = [])"
  by (auto simp: register_handler_def handlersFor_def Let_def split: option.splits)

theorem register_handler_appends_witness:
  "'''' \<notin> dom (handlers (WebhookProcessor_init :: string list handler WebhookProcessor)) \<and>
   handlersFor (WebhookProcessor_init :: string list handler WebhookProcessor) '''' = [] \<and>
   register_handler WebhookProcessor_init '''' (returning ''a'') =
     Inr (\<lparr>handlers = [''''  \<mapsto> [returning ''a'']], global_handlers = []\<rparr>,
          [RegisteredHandler ''''])"
  using register_handler_appends [of WebhookProcessor_init "''''" "returning ''a''"]
  by (simp add: WebhookProcessor_init_def handlersFor_def)



section \<open>The ingestion endpoint\<close>

text \<open>
  C7, as amended. When decoding the body raises \<^verbatim>\<open>JSONDecodeError\<close>, the endpoint raises
  \<^verbatim>\<open>HTTPException\<close> with status 400 and detail "Invalid JSON" and hands no event to
  \<^verbatim>\<open>process_event\<close>. When the body decodes to a mapping whose \<^verbatim>\<open>data\<close> entry is absent or
  a mapping, it responds 200 with the message "Webhook processed successfully" and hands
  the normalized event to \<^verbatim>\<open>process_event\<close>, once. When the body decodes to anything
  else, it raises \<^verbatim>\<open>HTTPException\<close> with status 500 and detail "Internal server error"
  and hands no event on.
\<close>

theorem webhook_handler_replies:
  "webhook_handler now (RequestRaises JSONDecodeError) =
     (HTTPException 400 ''Invalid JSON'', [], [InvalidJSONPayload]) \<and>
   (normalizable payload \<longrightarrow>
      (\<exists>ev l. from_payload now payload = Inr ev \<and>
         webhook_handler now (Decoded payload) =
           (JSONResponse 200 [(''message'', ''Webhook processed successfully'')], [ev], l))) \<and>
   (\<not> normalizable payload \<longrightarrow>
      (\<exists>l. webhook_handler now (Decoded payload) =
         (HTTPException 500 ''Internal server error'', [], l)))"
proof (intro conjI impI)
  show "webhook_handler now (RequestRaises JSONDecodeError) =
          (HTTPException 400 ''Invalid JSON'', [], [InvalidJSONPayload])"
    by (simp add: webhook_handler_def except_clauses_def)
next
  assume "normalizable payload"
  then show "\<exists>ev l. from_payload now payload = Inr ev \<and>
               webhook_handler now (Decoded payload) =
                 (JSONResponse 200 [(''message'', ''Webhook processed successfully'')], [ev], l)"
    by (auto simp: normalizable_items webhook_handler_def from_payload_def)
next
  assume n: "\<not> normalizable payload"
  show "\<exists>l. webhook_handler now (Decoded payload) =
              (HTTPException 500 ''Internal server error'', [], l)"
  proof (cases payload)
    case (JObj items)
    with n obtain d where "map_of items ''data'' = Some d" "\<not> is_mapping d"
      by (auto simp: normalizable_def split: option.splits)
    with JObj show ?thesis
      by (cases d) (simp_all add: webhook_handler_def from_payload_def except_clauses_def)
  qed (simp_all add: webhook_handler_def except_clauses_def)
qed

theorem webhook_handler_replies_witness:
  "normalizable (JObj [(''event'', JStr ''card_moved'')]) \<and>
   \<not> normalizable (JArr []) \<and>
   webhook_handler 0 (Decoded (JObj [(''event'', JStr ''card_moved'')])) =
     (JSONResponse 200 [(''message'', ''Webhook processed successfully'')],
      [\<lparr>event = JStr ''card_moved'', author = JObj [], data = JObj [], timestamp = 0\<rparr>],
      [WebhookReceived (JStr ''card_moved'')]) \<and>
   webhook_handler 0 (Decoded (JArr [])) =
     (HTTPException 500 ''Internal server error'', [], [WebhookProcessingError AttributeError])"
  using webhook_handler_replies [of 0 "JObj [(''event'', JStr ''card_moved'')]"]
        webhook_handler_replies [of 0 "JArr []"]
  by (simp add: normalizable_def webhook_handler_def from_payload_def except_clauses_def)

text \<open>
  C7 as stated fails: the body \<^verbatim>\<open>{"data": null}\<close> decodes, and the endpoint answers with
  status 500, not 200; no event is handed on.
\<close>

theorem webhook_handler_500_on_decoded_body:
  "webhook_handler 0 (Decoded (JObj [(''data'', JNull)])) =
     (HTTPException 500 ''Internal server error'', [],
      [WebhookReceived (JStr ''unknown''), WebhookProcessingError AttributeError])"
  by (simp add: webhook_handler_def from_payload_def except_clauses_def)

section \<open>Dispatch: order, isolation and what reaches the caller\<close>





lemmas example_defs =
  alice_moved_def bob_moved_def empty_event_def processor_ABG_def returning_def raising_def
  process_event_def handlersFor_def invoke_def Let_def dispatch_sequence_def
  deliverable_def absorbed_def failure_of_def List.map_filter_simps










text \<open>
  C6, as amended. For every payload mapping without an \<^verbatim>\<open>event\<close> entry that
  \<^verbatim>\<open>from_payload\<close> returns an event for, and every state of the registry: the kind of
  the event is the empty string, and \<^verbatim>\<open>process_event\<close> invokes on it only handlers
  registered for the empty string, followed by global handlers, in that order; only
  global handlers, when no handler is registered for the empty string.
\<close>

theorem no_event_field_routing:
  assumes "map_of items ''event'' = None"
      and "from_payload now (JObj items) = Inr ev"
  shows "event ev = JStr '''' \<and>
         prefix (map fst (calls (fst (process_event self ev w))))
                (handlersFor self '''' @ global_handlers self) \<and>
         (handlersFor self '''' = [] \<longrightarrow>
            prefix (map fst (calls (fst (process_event self ev w)))) (global_handlers self))"
proof -
  from assms have e: "event ev = JStr ''''"
    by (auto simp: from_payload_def split: sum.splits)
  then have d: "dispatch_sequence self ev = handlersFor self '''' @ global_handlers self"
    by (simp add: dispatch_sequence_def)
  from process_event_prefix [of self ev w]
  have "prefix (map fst (calls (fst (process_event self ev w))))
               (map fst (in_turn (dispatch_sequence self ev) ev w))"
    by (rule map_mono_prefix)
  with d have p: "prefix (map fst (calls (fst (process_event self ev w))))
                         (handlersFor self '''' @ global_handlers self)"
    by (simp add: map_fst_in_turn)
  with e show ?thesis by auto
qed

theorem no_event_field_routing_witness:
  "map_of ([] :: (string \<times> json) list) ''event'' = None \<and>
   from_payload 0 (JObj []) = Inr empty_event \<and>
   handlersFor (processor_ABG KeyError KeyError) '''' = [] \<and>
   prefix (map fst (calls (fst (process_event (processor_ABG KeyError KeyError) empty_event []))))
          (global_handlers (processor_ABG KeyError KeyError)) \<and>
   calls (fst (process_event (processor_ABG KeyError KeyError) empty_event [])) =
     [(raising ''G'' KeyError, empty_event, [])]"
  using no_event_field_routing [of "[]" 0 empty_event "processor_ABG KeyError KeyError" "[]"]
  by (simp add: example_defs from_payload_def)

text \<open>
  C6 as stated fails: with a handler registered for the empty string and no global
  handler, dispatching the event of the payload \<^verbatim>\<open>{}\<close> invokes that keyed handler.
\<close>

theorem empty_kind_reaches_keyed_handler:
  "from_payload 0 (JObj []) = Inr empty_event \<and>
   global_handlers \<lparr>handlers = ['''' \<mapsto> [returning ''K'']], global_handlers = []\<rparr> = [] \<and>
   calls (fst (process_event \<lparr>handlers = ['''' \<mapsto> [returning ''K'']], global_handlers = []\<rparr>
                 empty_event [])) =
     [(returning ''K'', empty_event, [])]"
  by (simp add: example_defs from_payload_def)

end
